theory Spec2Isabelle
  imports Main "HOL-Library.AList" "HOL-Library.Log_Nat"
begin

section \<open>Tables\<close>

text \<open>
  A cell of the uploaded table holds a number, a text, or nothing. \<open>None\<close> stands for
  every value that \<^verbatim>\<open>pd.notna\<close> rejects (None, NaN, NaT, pd.NA). The numbers are
  Python floats; their type \<open>'f\<close> is left open, and the operations on them are passed
  in (see \<open>float_ops\<close> below). Two floats that compare equal with \<^verbatim>\<open>==\<close> are one value
  of \<open>'f\<close>.
\<close>

datatype 'f val = Num 'f | Text string

type_synonym 'f cell = "'f val option"

text \<open>
  A row, as \<^verbatim>\<open>df.iterrows()\<close> yields it, is a Series indexed by the column labels:
  \<^verbatim>\<open>row[label]\<close> raises KeyError on a label that the Series does not have, which is
  \<open>None\<close> at the outer level here. Column labels are strings.
\<close>

type_synonym 'f row = "string \<rightharpoonup> 'f cell"

record 'f dataframe =
  columns :: "string list"
  rows :: "'f row list"

definition notna :: "'f cell \<Rightarrow> bool" where
  "notna c = (c \<noteq> None)"

text \<open>\<^verbatim>\<open>df.empty\<close>: true when any axis of the frame has length 0.\<close>

definition df_empty :: "'f dataframe \<Rightarrow> bool" where
  "df_empty df = (length (columns df) = 0 \<or> length (rows df) = 0)"

section \<open>Strings\<close>

text \<open>
  \<^verbatim>\<open>str.lower()\<close> on the bytes of the label: the letters A-Z move to a-z, every other
  byte (also those of a multi-byte UTF-8 sequence) stays. The terms searched for below
  are ASCII, so the search sees the same matches as on code points.
\<close>

definition lower_char :: "char \<Rightarrow> char" where
  "lower_char c =
     (let n = (of_char c :: nat) in if 65 \<le> n \<and> n \<le> 90 then char_of (n + 32) else c)"

definition lower :: "string \<Rightarrow> string" where
  "lower s = map lower_char s"

fun starts_with :: "string \<Rightarrow> string \<Rightarrow> bool" where
  "starts_with [] s = True"
| "starts_with (t # ts) [] = False"
| "starts_with (t # ts) (c # cs) = (t = c \<and> starts_with ts cs)"

text \<open>\<open>contains t s\<close> is Python's \<^verbatim>\<open>t in s\<close> on strings.\<close>

fun contains :: "string \<Rightarrow> string \<Rightarrow> bool" where
  "contains t [] = (t = [])"
| "contains t (c # cs) = (starts_with t (c # cs) \<or> contains t cs)"

section \<open>validate_data\<close>

record data_format =
  format :: string
  student_col :: string
  subject_percentage_pairs :: "(string \<times> string \<times> bool) list"

definition pct_terms :: "string list" where
  "pct_terms = [''percentage'', ''percent'', ''%'']"

definition is_percentage_col :: "string \<Rightarrow> bool" where
  "is_percentage_col percentage_col =
     list_ex (\<lambda>term. contains term (lower percentage_col)) pct_terms"

definition msg_no_data :: string where
  "msg_no_data = ''The uploaded file contains no data.''"

definition msg_columns :: string where
  "msg_columns =
     ''The file should have at least 3 columns: student name, subject, and percentage.''"

definition msg_undetermined :: string where
  "msg_undetermined =
     ''Could not automatically determine the data structure. Please select the appropriate columns below.''"

text \<open>
  The loop \<^verbatim>\<open>for i in range(1, len(df.columns), 2)\<close>, with \<open>potential_pairs\<close> as its
  accumulator.
\<close>

function potential_pairs_loop ::
  "string list \<Rightarrow> nat \<Rightarrow> (string \<times> string \<times> bool) list \<Rightarrow> (string \<times> string \<times> bool) list"
where
  "potential_pairs_loop cols i potential_pairs =
     (if i < length cols then
        (if i + 1 < length cols then
           (let subject_col = cols ! i;
                percentage_col = cols ! (i + 1);
                is_pct = is_percentage_col percentage_col
            in potential_pairs_loop cols (i + 2)
                 (potential_pairs @ [(subject_col, percentage_col, is_pct)]))
         else potential_pairs_loop cols (i + 2) potential_pairs)
      else potential_pairs)"
  by pat_completeness auto
termination
  by (relation "measure (\<lambda>(cols, i, acc). length cols - i)") auto

declare potential_pairs_loop.simps [simp del]

definition validate_data :: "'f dataframe \<Rightarrow> string list \<times> data_format option" where
  "validate_data df =
     (if df_empty df then ([msg_no_data], None)
      else if length (columns df) < 3 then ([msg_columns], None)
      else
        (let potential_pairs = potential_pairs_loop (columns df) 1 []
         in if potential_pairs \<noteq> [] then
              ([], Some \<lparr>format = ''paired'',
                         student_col = columns df ! 0,
                         subject_percentage_pairs = potential_pairs\<rparr>)
            else ([msg_undetermined], None)))"

section \<open>process_data_and_create_charts\<close>

text \<open>
  What Python's float arithmetic does is not code of this program. It is passed in:
  \<open>float_of_str\<close> is \<^verbatim>\<open>float(s)\<close> on a string (\<open>None\<close> when it raises ValueError),
  \<open>float_of_int\<close> the conversion of an int operand, \<open>float_sum\<close> is \<^verbatim>\<open>sum\<close> on a
  list of floats, \<open>float_div\<close> and \<open>float_mul\<close> are \<^verbatim>\<open>/\<close> and \<^verbatim>\<open>*\<close>.
\<close>

record 'f float_ops =
  float_of_str :: "string \<Rightarrow> 'f option"
  float_of_int :: "int \<Rightarrow> 'f"
  float_sum :: "'f list \<Rightarrow> 'f"
  float_div :: "'f \<Rightarrow> 'f \<Rightarrow> 'f"
  float_mul :: "'f \<Rightarrow> 'f \<Rightarrow> 'f"

text \<open>
  The exceptions that leave the function: the KeyError of \<^verbatim>\<open>row[label]\<close> with the label
  that is missing, the ValueError of \<^verbatim>\<open>float(s)\<close> with the text \<open>s\<close> that it could not
  convert, and whatever the plotting calls raise, with its message.
\<close>

datatype error = KeyError string | ValueError string | PlotError string

text \<open>\<^verbatim>\<open>float(x)\<close> on a cell that is not null.\<close>

definition py_float :: "('f, 'z) float_ops_scheme \<Rightarrow> 'f val \<Rightarrow> error + 'f" where
  "py_float ops v =
     (case v of
        Num x \<Rightarrow> Inr x
      | Text s \<Rightarrow> (case float_of_str ops s of None \<Rightarrow> Inl (ValueError s) | Some x \<Rightarrow> Inr x))"

record 'f summary =
  average :: 'f
  total_achieved :: 'f
  total_possible :: int
  total_percentage :: 'f
  num_subjects :: nat

text \<open>
  One entry of \<open>charts\<close>. The figure is kept as the data it is drawn from, the row's
  lists \<^verbatim>\<open>subjects\<close> and \<^verbatim>\<open>scores\<close>.
\<close>

record 'f chart =
  student :: "'f cell"
  figure_subjects :: "string list"
  figure_scores :: "'f list"
  summary :: "'f summary"

text \<open>
  A key of the dict \<open>student_summaries\<close>. A name that is not null is found by its value.
  A null name is a NaN object, which is equal to nothing, itself included, so that a dict
  finds it only by the identity of the object.
\<close>

datatype 'f key = Name "'f val" | NaN nat

text \<open>
  Two more things are decided outside this program and passed in with the float
  operations. \<open>plot\<close> stands for the plotting calls of the loop body (textwrap and
  matplotlib, from \<^verbatim>\<open>plt.subplots\<close> to \<^verbatim>\<open>fig.savefig\<close>, under the display options
  of the sidebar): given the student's name, the subjects, the scores and the average
  it is \<open>None\<close> when they draw the figure and the message of the exception when they
  raise. \<open>nan_id k\<close> is the identity of the object that holds the name of record number
  \<open>k\<close> (counting from 0 the rows that are not skipped), read when that name is null:
  which rows share one NaN object is decided by pandas (the rows of a float column do
  not).
\<close>

record 'f platform = "'f float_ops" +
  plot :: "'f cell \<Rightarrow> string list \<Rightarrow> 'f list \<Rightarrow> 'f \<Rightarrow> string option"
  nan_id :: "nat \<Rightarrow> nat"

definition dict_key :: "('f, 'z) platform_scheme \<Rightarrow> nat \<Rightarrow> 'f cell \<Rightarrow> 'f key" where
  "dict_key ops k student_name =
     (case student_name of Some v \<Rightarrow> Name v | None \<Rightarrow> NaN (nan_id ops k))"

text \<open>
  The inner loop over \<open>subject_percentage_pairs\<close>, with the lists \<open>subjects\<close> and
  \<open>scores\<close> as accumulators. \<^verbatim>\<open>and\<close> is short-circuit: the percentage cell is read only
  when the subject cell is not null.
\<close>

fun extract_pairs ::
  "('f, 'z) float_ops_scheme \<Rightarrow> 'f row \<Rightarrow> (string \<times> string \<times> bool) list \<Rightarrow>
   string list \<Rightarrow> 'f list \<Rightarrow> error + (string list \<times> 'f list)"
where
  "extract_pairs ops row [] subjects scores = Inr (subjects, scores)"
| "extract_pairs ops row ((subject_col, percentage_col, flag) # pairs) subjects scores =
     (case row subject_col of
        None \<Rightarrow> Inl (KeyError subject_col)
      | Some sc \<Rightarrow>
          if notna sc then
            (case row percentage_col of
               None \<Rightarrow> Inl (KeyError percentage_col)
             | Some None \<Rightarrow> extract_pairs ops row pairs subjects scores
             | Some (Some v) \<Rightarrow>
                 (case py_float ops v of
                    Inl e \<Rightarrow> Inl e
                  | Inr x \<Rightarrow> extract_pairs ops row pairs (subjects @ [subject_col]) (scores @ [x])))
          else extract_pairs ops row pairs subjects scores)"

text \<open>The statistics of one row (the assignments to \<open>avg_score\<close> ... \<open>total_percentage\<close>).\<close>

definition summarize ::
  "('f, 'z) float_ops_scheme \<Rightarrow> string list \<Rightarrow> 'f list \<Rightarrow> 'f summary"
where
  "summarize ops subjects scores =
     (let avg_score =
            (if scores \<noteq> [] then
               float_div ops (float_sum ops scores) (float_of_int ops (int (length scores)))
             else float_of_int ops 0);
          total_possible' = 100 * int (length scores);
          total_achieved' = float_sum ops scores;
          total_percentage' =
            (if total_possible' > 0 then
               float_mul ops (float_div ops total_achieved' (float_of_int ops total_possible'))
                 (float_of_int ops 100)
             else float_of_int ops 0)
      in \<lparr>average = avg_score,
          total_achieved = total_achieved',
          total_possible = total_possible',
          total_percentage = total_percentage',
          num_subjects = length subjects\<rparr>)"

text \<open>
  The body of the loop over the rows. \<open>student_summaries\<close> is a dict: storing under a
  key that is present replaces the value and keeps the key's place, as
  \<open>AList.update\<close> does. The summary is stored before the figure is drawn; an exception
  of the plotting calls leaves the function like any other.
\<close>

definition process_row ::
  "('f, 'z) platform_scheme \<Rightarrow> data_format \<Rightarrow> 'f row \<Rightarrow>
   'f chart list \<times> ('f key \<times> 'f summary) list \<Rightarrow>
   error + ('f chart list \<times> ('f key \<times> 'f summary) list)"
where
  "process_row ops data_format row st =
     (case row (student_col data_format) of
        None \<Rightarrow> Inl (KeyError (student_col data_format))
      | Some student_name \<Rightarrow>
          (case extract_pairs ops row (subject_percentage_pairs data_format) [] [] of
             Inl e \<Rightarrow> Inl e
           | Inr (subjects, scores) \<Rightarrow>
               if subjects = [] then Inr st
               else
                 (let s = summarize ops subjects scores;
                      student_summaries =
                        AList.update (dict_key ops (length (fst st)) student_name) s (snd st)
                  in case plot ops student_name subjects scores (average s) of
                       Some message \<Rightarrow> Inl (PlotError message)
                     | None \<Rightarrow>
                         Inr (fst st @ [\<lparr>student = student_name, figure_subjects = subjects,
                                          figure_scores = scores, summary = s\<rparr>],
                              student_summaries))))"

fun process_rows ::
  "('f, 'z) platform_scheme \<Rightarrow> data_format \<Rightarrow> 'f row list \<Rightarrow>
   'f chart list \<times> ('f key \<times> 'f summary) list \<Rightarrow>
   error + ('f chart list \<times> ('f key \<times> 'f summary) list)"
where
  "process_rows ops data_format [] st = Inr st"
| "process_rows ops data_format (row # rest) st =
     (case process_row ops data_format row st of
        Inl e \<Rightarrow> Inl e
      | Inr st' \<Rightarrow> process_rows ops data_format rest st')"

definition process_data_and_create_charts ::
  "('f, 'z) platform_scheme \<Rightarrow> 'f dataframe \<Rightarrow> data_format \<Rightarrow>
   error + ('f chart list \<times> ('f key \<times> 'f summary) list)"
where
  "process_data_and_create_charts ops df data_format =
     (if format data_format = ''paired'' then
        process_rows ops data_format (rows df) ([], [])
      else Inr ([], []))"

section \<open>What a single row yields\<close>

text \<open>
  A pair contributes to a row when both of its labels are in the row and both cells
  are not null.
\<close>

definition both_present :: "'f row \<Rightarrow> string \<times> string \<times> bool \<Rightarrow> bool" where
  "both_present row pair =
     (case row (fst pair) of
        Some (Some a) \<Rightarrow> (case row (fst (snd pair)) of Some (Some b) \<Rightarrow> True | _ \<Rightarrow> False)
      | _ \<Rightarrow> False)"

text \<open>
  The record that the loop body builds from one row, taken on its own: an error when the
  body raises, \<open>None\<close> when the row is skipped by \<^verbatim>\<open>continue\<close>.
\<close>

definition row_record ::
  "('f, 'z) platform_scheme \<Rightarrow> data_format \<Rightarrow> 'f row \<Rightarrow> error + 'f chart option"
where
  "row_record ops data_format row =
     (case row (student_col data_format) of
        None \<Rightarrow> Inl (KeyError (student_col data_format))
      | Some student_name \<Rightarrow>
          (case extract_pairs ops row (subject_percentage_pairs data_format) [] [] of
             Inl e \<Rightarrow> Inl e
           | Inr (subjects, scores) \<Rightarrow>
               if subjects = [] then Inr None
               else
                 (case plot ops student_name subjects scores
                         (average (summarize ops subjects scores)) of
                    Some message \<Rightarrow> Inl (PlotError message)
                  | None \<Rightarrow>
                      Inr (Some \<lparr>student = student_name, figure_subjects = subjects,
                                  figure_scores = scores,
                                  summary = summarize ops subjects scores\<rparr>))))"

definition emitted :: "error + 'f chart option \<Rightarrow> 'f chart list" where
  "emitted r = (case r of Inr (Some c) \<Rightarrow> [c] | _ \<Rightarrow> [])"

section \<open>Float arithmetic by rounding\<close>

text \<open>
  A platform for the examples. A finite float is the rational it denotes, and an
  operation returns its exact result rounded by \<open>rnd\<close>. The plotting calls do not raise,
  and every null name is an object of its own. \<^verbatim>\<open>sum\<close> starts from the int 0 and adds from the left, rounding
  every partial sum (a CPython that compensates the partial sums returns the same value
  on the lists of the examples below, whose sums are exact).
  \<open>float_of_digits\<close> is \<^verbatim>\<open>float(s)\<close> on the strings that the examples below hold: a run
  of ASCII digits denotes its number, and a string with any other character in it, such
  as \<^verbatim>\<open>'abc'\<close>, is taken as one that \<^verbatim>\<open>float\<close> rejects.
\<close>

fun digits_value :: "string \<Rightarrow> nat \<Rightarrow> nat option" where
  "digits_value [] acc = Some acc"
| "digits_value (c # cs) acc =
     (let n = (of_char c :: nat)
      in if 48 \<le> n \<and> n \<le> 57 then digits_value cs (10 * acc + (n - 48)) else None)"

definition float_of_digits :: "string \<Rightarrow> rat option" where
  "float_of_digits s = (if s = [] then None else map_option of_nat (digits_value s 0))"

definition rounded_ops :: "(rat \<Rightarrow> rat) \<Rightarrow> rat platform" where
  "rounded_ops rnd =
     \<lparr>float_of_str = (\<lambda>s. map_option rnd (float_of_digits s)),
      float_of_int = (\<lambda>i. rnd (of_int i)),
      float_sum = foldl (\<lambda>a x. rnd (a + x)) 0,
      float_div = (\<lambda>a b. rnd (a / b)),
      float_mul = (\<lambda>a b. rnd (a * b)),
      plot = (\<lambda>student_name subjects scores avg_score. None),
      nan_id = (\<lambda>k. k)\<rparr>"

text \<open>
  Rounding to IEEE 754 binary64, to nearest with ties to even, for values in the normal
  range: \<open>ilog2 q\<close> is the exponent \<open>e\<close> with \<open>2 ^ e \<le> q < 2 ^ (e + 1)\<close>, and the result is
  the nearest multiple of \<open>2 ^ (e - 52)\<close>. Overflow to infinity and subnormal numbers are
  not modelled.
\<close>

definition round_half_even :: "rat \<Rightarrow> int" where
  "round_half_even q =
     (let f = \<lfloor>q\<rfloor>; d = q - of_int f
      in if d < 1 / 2 then f else if 1 / 2 < d then f + 1 else if even f then f else f + 1)"

definition ilog2 :: "rat \<Rightarrow> int" where
  "ilog2 q = (if 1 \<le> q then bitlen \<lfloor>q\<rfloor> - 1 else - bitlen (\<lceil>1 / q\<rceil> - 1))"

definition pow2 :: "int \<Rightarrow> rat" where
  "pow2 e = (if 0 \<le> e then 2 ^ nat e else 1 / 2 ^ nat (- e))"

definition binary64 :: "rat \<Rightarrow> rat" where
  "binary64 q =
     (if q = 0 then 0
      else (let u = pow2 (ilog2 \<bar>q\<bar> - 52) in of_int (round_half_even (q / u)) * u))"

definition binary64_ops :: "rat platform" where
  "binary64_ops = rounded_ops binary64"

section \<open>Example tables\<close>

definition make_row :: "string list \<Rightarrow> 'f cell list \<Rightarrow> 'f row" where
  "make_row cols cells = map_of (zip cols cells)"

definition marks_columns :: "string list" where
  "marks_columns = [''Student'', ''Chem'', ''Chem %'', ''Bio'', ''Bio mark'', ''Notes'']"

definition ann_row :: "rat row" where
  "ann_row = make_row marks_columns
     [Some (Text ''Ann''), Some (Num 8), Some (Num 50), Some (Num 9), Some (Num 100), None]"

definition bob_row :: "rat row" where
  "bob_row = make_row marks_columns
     [Some (Text ''Bob''), None, None, Some (Num 7), None, Some (Text ''absent'')]"

definition ann_again_row :: "rat row" where
  "ann_again_row = make_row marks_columns
     [Some (Text ''Ann''), Some (Num 6), Some (Num 100), None, Some (Num 75), None]"

definition marks :: "rat dataframe" where
  "marks = \<lparr>columns = marks_columns, rows = [ann_row, bob_row, ann_again_row]\<rparr>"

definition marks_format :: data_format where
  "marks_format =
     \<lparr>format = ''paired'', student_col = ''Student'',
      subject_percentage_pairs = [(''Chem'', ''Chem %'', True), (''Bio'', ''Bio mark'', False)]\<rparr>"

definition ann_summary :: "rat summary" where
  "ann_summary = \<lparr>average = 75, total_achieved = 150, total_possible = 200,
                   total_percentage = 75, num_subjects = 2\<rparr>"

definition ann_chart :: "rat chart" where
  "ann_chart = \<lparr>student = Some (Text ''Ann''), figure_subjects = [''Chem'', ''Bio''],
                 figure_scores = [50, 100], summary = ann_summary\<rparr>"

definition ann_again_summary :: "rat summary" where
  "ann_again_summary = \<lparr>average = 100, total_achieved = 100, total_possible = 100,
                         total_percentage = 100, num_subjects = 1\<rparr>"

definition ann_again_chart :: "rat chart" where
  "ann_again_chart = \<lparr>student = Some (Text ''Ann''), figure_subjects = [''Chem''],
                       figure_scores = [100], summary = ann_again_summary\<rparr>"

text \<open>A row whose first pair has a text for its percentage and no subject cell.\<close>

definition text_skipped_row :: "rat row" where
  "text_skipped_row = make_row marks_columns
     [Some (Text ''Cy''), None, Some (Text ''abc''), Some (Num 9), Some (Num 100), None]"

definition cy_summary :: "rat summary" where
  "cy_summary = \<lparr>average = 100, total_achieved = 100, total_possible = 100,
                  total_percentage = 100, num_subjects = 1\<rparr>"

definition cy_chart :: "rat chart" where
  "cy_chart = \<lparr>student = Some (Text ''Cy''), figure_subjects = [''Bio''],
                figure_scores = [100], summary = cy_summary\<rparr>"

text \<open>A row whose first pair has a subject cell and a text for its percentage.\<close>

definition text_read_row :: "rat row" where
  "text_read_row = make_row marks_columns
     [Some (Text ''Di''), Some (Num 8), Some (Text ''abc''), Some (Num 9), Some (Num 100), None]"

text \<open>A row whose first percentage is the text 80 and whose second subject is null.\<close>

definition text_number_row :: "rat row" where
  "text_number_row = make_row marks_columns
     [Some (Text ''Fay''), Some (Num 8), Some (Text ''80''), None, Some (Num 75), None]"

text \<open>A row with the single score 7.\<close>

definition seven_row :: "rat row" where
  "seven_row = make_row marks_columns
     [Some (Text ''Ed''), Some (Num 8), Some (Num 7), None, None, None]"

definition seven_summary :: "rat summary" where
  "seven_summary = \<lparr>average = 7, total_achieved = 7, total_possible = 100,
                     total_percentage = 7881299347898369 / 1125899906842624,
                     num_subjects = 1\<rparr>"

definition seven_chart :: "rat chart" where
  "seven_chart = \<lparr>student = Some (Text ''Ed''), figure_subjects = [''Chem''],
                   figure_scores = [7], summary = seven_summary\<rparr>"

text \<open>A frame with two rows in its index and no column.\<close>

definition no_columns :: "rat dataframe" where
  "no_columns = \<lparr>columns = [], rows = [Map.empty, Map.empty]\<rparr>"

section \<open>The loops as list functions\<close>

lemma potential_pairs_loop_eq:
  "potential_pairs_loop cols i acc =
     acc @ map (\<lambda>k. (cols ! (i + 2 * k), cols ! (i + 2 * k + 1),
                      is_percentage_col (cols ! (i + 2 * k + 1))))
             [0..<(length cols - i) div 2]"
proof (induction cols i acc rule: potential_pairs_loop.induct)
  case (1 cols i acc)
  show ?case
  proof (cases "i + 1 < length cols")
    case True
    then have n: "(length cols - i) div 2 = Suc ((length cols - (i + 2)) div 2)"
      by (simp add: Suc_diff_Suc div2_Suc_Suc flip: Suc_diff_Suc)
    have "potential_pairs_loop cols i acc =
            potential_pairs_loop cols (i + 2)
              (acc @ [(cols ! i, cols ! (i + 1), is_percentage_col (cols ! (i + 1)))])"
      using True by (subst potential_pairs_loop.simps) (simp add: Let_def)
    also have "\<dots> = (acc @ [(cols ! i, cols ! (i + 1), is_percentage_col (cols ! (i + 1)))]) @
        map (\<lambda>k. (cols ! (i + 2 + 2 * k), cols ! (i + 2 + 2 * k + 1),
                      is_percentage_col (cols ! (i + 2 + 2 * k + 1))))
             [0..<(length cols - (i + 2)) div 2]"
      using True by (intro "1.IH"(1)) auto
    finally show ?thesis
      unfolding n by (simp add: upt_conv_Cons o_def del: upt_Suc flip: map_Suc_upt)
  next
    case False
    then have n: "(length cols - i) div 2 = 0" by auto
    show ?thesis
    proof (cases "i < length cols")
      case True
      have "potential_pairs_loop cols i acc = potential_pairs_loop cols (i + 2) acc"
        using True False by (subst potential_pairs_loop.simps) simp
      also have "\<dots> = acc @ map (\<lambda>k. (cols ! (i + 2 + 2 * k), cols ! (i + 2 + 2 * k + 1),
                      is_percentage_col (cols ! (i + 2 + 2 * k + 1))))
             [0..<(length cols - (i + 2)) div 2]"
        using True False by (intro "1.IH"(2)) auto
      finally show ?thesis using False n by simp
    next
      case F2: False
      then show ?thesis using n by (subst potential_pairs_loop.simps) simp
    qed
  qed
qed

lemma extract_pairs_acc:
  "extract_pairs ops row pairs subs0 scs0 = Inr (subs, scs) \<Longrightarrow>
     \<exists>scs'. subs = subs0 @ map fst (filter (both_present row) pairs) \<and>
            scs = scs0 @ scs' \<and>
            list_all2 (\<lambda>x pair. \<exists>v. row (fst (snd pair)) = Some (Some v) \<and> py_float ops v = Inr x)
              scs' (filter (both_present row) pairs)"
proof (induction pairs arbitrary: subs0 scs0)
  case Nil
  then show ?case by simp
next
  case (Cons pair pairs)
  obtain s p f where pair: "pair = (s, p, f)" by (cases pair) auto
  show ?case
  proof (cases "both_present row pair")
    case True
    then obtain a v where a: "row s = Some (Some a)" and v: "row p = Some (Some v)"
      by (auto simp: both_present_def pair split: option.splits)
    from Cons.prems obtain x where x: "py_float ops v = Inr x"
      and rest: "extract_pairs ops row pairs (subs0 @ [s]) (scs0 @ [x]) = Inr (subs, scs)"
      by (auto simp: pair a v notna_def split: sum.splits)
    from Cons.IH [OF rest] obtain scs' where
      "subs = (subs0 @ [s]) @ map fst (filter (both_present row) pairs)"
      "scs = (scs0 @ [x]) @ scs'"
      "list_all2 (\<lambda>x pair. \<exists>v. row (fst (snd pair)) = Some (Some v) \<and> py_float ops v = Inr x)
              scs' (filter (both_present row) pairs)"
      by blast
    then show ?thesis using True v x
      by (intro exI [of _ "x # scs'"]) (simp add: pair)
  next
    case False
    then have "extract_pairs ops row pairs subs0 scs0 = Inr (subs, scs)"
      using Cons.prems
      by (auto simp: pair both_present_def notna_def split: option.splits if_splits)
    from Cons.IH [OF this] show ?thesis using False by simp
  qed
qed

lemma process_row_record:
  "process_row ops fmt row st =
     (case row_record ops fmt row of
        Inl e \<Rightarrow> Inl e
      | Inr None \<Rightarrow> Inr st
      | Inr (Some c) \<Rightarrow>
          Inr (fst st @ [c],
               AList.update (dict_key ops (length (fst st)) (student c)) (summary c) (snd st)))"
  by (simp add: process_row_def row_record_def Let_def split: option.splits sum.splits prod.splits)

lemma process_rows_append:
  "process_rows ops fmt (xs @ ys) st =
     (case process_rows ops fmt xs st of Inl e \<Rightarrow> Inl e | Inr st' \<Rightarrow> process_rows ops fmt ys st')"
  by (induction xs arbitrary: st) (auto split: sum.splits)

lemma process_rows_charts:
  "process_rows ops fmt rs (ch0, sm0) = Inr (charts, sms) \<Longrightarrow>
     charts = ch0 @ concat (map (\<lambda>r. emitted (row_record ops fmt r)) rs) \<and>
     (\<forall>r\<in>set rs. \<exists>oc. row_record ops fmt r = Inr oc)"
proof (induction rs arbitrary: ch0 sm0)
  case Nil
  then show ?case by auto
next
  case (Cons r rs)
  show ?case
  proof (cases "row_record ops fmt r")
    case (Inl e)
    with Cons.prems show ?thesis by (simp add: process_row_record)
  next
    case (Inr oc)
    show ?thesis
    proof (cases oc)
      case None
      with Inr Cons.prems have "process_rows ops fmt rs (ch0, sm0) = Inr (charts, sms)"
        by (simp add: process_row_record)
      from Cons.IH [OF this] show ?thesis using Inr None by (simp add: emitted_def)
    next
      case (Some c)
      with Inr Cons.prems have
        "process_rows ops fmt rs
           (ch0 @ [c], AList.update (dict_key ops (length ch0) (student c)) (summary c) sm0) =
           Inr (charts, sms)"
        by (simp add: process_row_record)
      from Cons.IH [OF this] show ?thesis using Inr Some by (simp add: emitted_def)
    qed
  qed
qed

lemma process_rows_sums:
  "process_rows ops fmt rs (ch0, sm0) = Inr (charts, sms) \<Longrightarrow>
     map_of sms (Name v) =
       (case map_of (rev (map (\<lambda>c. (student c, summary c))
                       (concat (map (\<lambda>r. emitted (row_record ops fmt r)) rs)))) (Some v) of
          None \<Rightarrow> map_of sm0 (Name v)
        | Some s \<Rightarrow> Some s)"
proof (induction rs arbitrary: ch0 sm0)
  case Nil
  then show ?case by auto
next
  case (Cons r rs)
  show ?case
  proof (cases "row_record ops fmt r")
    case (Inl e)
    with Cons.prems show ?thesis by (simp add: process_row_record)
  next
    case (Inr oc)
    show ?thesis
    proof (cases oc)
      case None
      with Inr Cons.prems have "process_rows ops fmt rs (ch0, sm0) = Inr (charts, sms)"
        by (simp add: process_row_record)
      from Cons.IH [OF this] show ?thesis using Inr None by (simp add: emitted_def)
    next
      case (Some c)
      with Inr Cons.prems have
        "process_rows ops fmt rs
           (ch0 @ [c], AList.update (dict_key ops (length ch0) (student c)) (summary c) sm0) =
           Inr (charts, sms)"
        by (simp add: process_row_record)
      from Cons.IH [OF this] show ?thesis using Inr Some
        by (auto simp add: emitted_def update_conv' map_add_def dict_key_def
            split: option.splits)
    qed
  qed
qed

lemma validate_data_ok:
  assumes "\<not> df_empty df" and "3 \<le> length (columns df)"
  shows "validate_data df =
           ([], Some \<lparr>format = ''paired'', student_col = columns df ! 0,
                       subject_percentage_pairs =
                         map (\<lambda>k. (columns df ! (1 + 2 * k), columns df ! (1 + 2 * k + 1),
                                    is_percentage_col (columns df ! (1 + 2 * k + 1))))
                           [0..<(length (columns df) - 1) div 2]\<rparr>)"
proof -
  have "0 < (length (columns df) - 1) div 2" using assms(2) by simp
  then have "[0..<(length (columns df) - 1) div 2] \<noteq> []" by simp
  then show ?thesis
    using assms by (simp add: validate_data_def potential_pairs_loop_eq Let_def)
qed

lemma row_record_Some:
  assumes "row_record ops fmt row = Inr (Some c)"
  shows "\<exists>subjects scores.
           extract_pairs ops row (subject_percentage_pairs fmt) [] [] = Inr (subjects, scores) \<and>
           subjects \<noteq> [] \<and> row (student_col fmt) = Some (student c) \<and>
           figure_subjects c = subjects \<and> figure_scores c = scores \<and>
           summary c = summarize ops subjects scores"
  using assms
  by (auto simp: row_record_def split: option.splits sum.splits prod.splits if_splits)

lemma extract_pairs_lengths:
  assumes "extract_pairs ops row pairs [] [] = Inr (subjects, scores)"
  shows "length subjects = length scores"
proof -
  from extract_pairs_acc [OF assms] obtain scs' where
    "subjects = [] @ map fst (filter (both_present row) pairs)" "scores = [] @ scs'"
    "list_all2 (\<lambda>x pair. \<exists>v. row (fst (snd pair)) = Some (Some v) \<and> py_float ops v = Inr x)
       scs' (filter (both_present row) pairs)"
    by blast
  then show ?thesis by (auto dest: list_all2_lengthD)
qed

lemma charts_from_rows:
  assumes "process_data_and_create_charts ops df fmt = Inr (charts, sms)" and "c \<in> set charts"
  shows "\<exists>row\<in>set (rows df). row_record ops fmt row = Inr (Some c)"
proof (cases "format fmt = ''paired''")
  case True
  with assms(1) have "process_rows ops fmt (rows df) ([], []) = Inr (charts, sms)"
    by (simp add: process_data_and_create_charts_def)
  from process_rows_charts [OF this] assms(2) show ?thesis
    by (auto simp: emitted_def split: sum.splits option.splits)
next
  case False
  with assms show ?thesis by (simp add: process_data_and_create_charts_def)
qed

lemma binary64_values:
  "binary64 1 = 1" "binary64 2 = 2" "binary64 7 = 7" "binary64 50 = 50" "binary64 75 = 75"
  "binary64 80 = 80" "binary64 100 = 100" "binary64 150 = 150" "binary64 200 = 200"
  "binary64 (1 / 2) = 1 / 2" "binary64 (3 / 4) = 3 / 4"
  "binary64 (7 / 100) = 1261007895663739 / 18014398509481984"
  "binary64 (31525197391593475 / 4503599627370496) = 7881299347898369 / 1125899906842624"
  by code_simp+

lemma is_percentage_col_values:
  "is_percentage_col ''Chem %''" "\<not> is_percentage_col ''Bio mark''"
  by code_simp+

lemmas example_defs =
  marks_def marks_columns_def marks_format_def ann_row_def bob_row_def ann_again_row_def
  ann_chart_def ann_summary_def ann_again_chart_def ann_again_summary_def
  text_skipped_row_def cy_chart_def cy_summary_def text_read_row_def text_number_row_def
  seven_row_def seven_chart_def seven_summary_def make_row_def

lemmas run_defs =
  process_data_and_create_charts_def process_row_def notna_def py_float_def summarize_def
  binary64_ops_def rounded_ops_def dict_key_def Let_def

lemma marks_result:
  "process_data_and_create_charts binary64_ops marks marks_format =
     Inr ([ann_chart, ann_again_chart], [(Name (Text ''Ann''), ann_again_summary)])"
  by (simp add: example_defs run_defs binary64_values)

lemma marks_validated: "validate_data marks = ([], Some marks_format)"
  by code_simp

lemma extract_pairs_all_null:
  assumes "\<forall>pair\<in>set pairs. fst pair \<in> dom row \<and> fst (snd pair) \<in> dom row \<and>
             (row (fst pair) = Some None \<or> row (fst (snd pair)) = Some None)"
  shows "extract_pairs ops row pairs subjects scores = Inr (subjects, scores)"
  using assms
proof (induction pairs)
  case Nil
  then show ?case by simp
next
  case (Cons pair pairs)
  obtain s p f where pair: "pair = (s, p, f)" by (cases pair) auto
  from Cons.prems have "s \<in> dom row" "p \<in> dom row" "row s = Some None \<or> row p = Some None"
    by (auto simp: pair)
  then show ?case using Cons
    by (auto simp: pair notna_def split: option.splits)
qed

lemma process_rows_skip:
  assumes "row_record ops fmt row = Inr None"
  shows "process_rows ops fmt (before @ row # after) st = process_rows ops fmt (before @ after) st"
  using assms by (simp add: process_rows_append process_row_record split: sum.splits)

lemma extract_pairs_coerced:
  assumes "extract_pairs ops row pairs [] [] = Inr (subjects, scores)"
    and "pair \<in> set pairs" and "row (fst pair) = Some (Some a)"
    and "row (fst (snd pair)) = Some (Some v)"
  shows "\<exists>x. py_float ops v = Inr x"
proof -
  from extract_pairs_acc [OF assms(1)] obtain scs' where
    l: "list_all2 (\<lambda>x pair. \<exists>v. row (fst (snd pair)) = Some (Some v) \<and> py_float ops v = Inr x)
       scs' (filter (both_present row) pairs)"
    by blast
  have "pair \<in> set (filter (both_present row) pairs)"
    using assms(2-4) by (simp add: both_present_def)
  then obtain i where i: "i < length (filter (both_present row) pairs)"
    "filter (both_present row) pairs ! i = pair"
    by (metis in_set_conv_nth)
  from l i have "\<exists>v. row (fst (snd pair)) = Some (Some v) \<and> py_float ops v = Inr (scs' ! i)"
    by (auto simp: list_all2_conv_all_nth)
  with assms(4) show ?thesis by auto
qed

lemma py_float_Inr:
  "py_float ops v = Inr x \<Longrightarrow>
     (case v of Num y \<Rightarrow> x = y | Text s \<Rightarrow> float_of_str ops s = Some x)"
  by (auto simp: py_float_def split: val.splits option.splits)

lemma extract_pairs_append:
  "extract_pairs ops row (ps @ qs) subjects scores =
     (case extract_pairs ops row ps subjects scores of
        Inl e \<Rightarrow> Inl e
      | Inr (subjects', scores') \<Rightarrow> extract_pairs ops row qs subjects' scores')"
proof (induction ps arbitrary: subjects scores)
  case Nil
  then show ?case by simp
next
  case (Cons pair ps)
  obtain s p f where pair: "pair = (s, p, f)" by (cases pair) auto
  show ?case
    by (simp add: pair Cons.IH split: option.splits sum.splits)
qed

lemma extract_pairs_rejected:
  assumes "row (fst pair) = Some (Some a)"
    and "row (fst (snd pair)) = Some (Some (Text t))"
    and "float_of_str ops t = None"
  shows "extract_pairs ops row (pair # qs) subjects scores = Inl (ValueError t)"
proof -
  obtain s p f where pair: "pair = (s, p, f)" by (cases pair) auto
  show ?thesis using assms by (simp add: pair notna_def py_float_def)
qed

lemma chart_summary:
  assumes "process_data_and_create_charts ops df fmt = Inr (charts, sms)" and "c \<in> set charts"
  shows "figure_scores c \<noteq> [] \<and> summary c = summarize ops (figure_subjects c) (figure_scores c)"
proof -
  from charts_from_rows [OF assms] obtain row where "row_record ops fmt row = Inr (Some c)"
    by blast
  from row_record_Some [OF this] obtain subjects scores where
    ex: "extract_pairs ops row (subject_percentage_pairs fmt) [] [] = Inr (subjects, scores)"
    and ne: "subjects \<noteq> []"
    and c: "figure_subjects c = subjects" "figure_scores c = scores"
      "summary c = summarize ops subjects scores"
    by blast
  from extract_pairs_lengths [OF ex] ne have "scores \<noteq> []" by auto
  then show ?thesis by (simp add: c)
qed

lemma marks_rows:
  "row_record binary64_ops marks_format ann_row = Inr (Some ann_chart)"
  "row_record binary64_ops marks_format bob_row = Inr None"
  "row_record binary64_ops marks_format ann_again_row = Inr (Some ann_again_chart)"
  by (simp_all add: row_record_def example_defs run_defs binary64_values)

lemma round_half_even_error: "\<bar>of_int (round_half_even q) - q\<bar> \<le> 1 / 2"
proof -
  have "of_int \<lfloor>q\<rfloor> \<le> q" "q < of_int \<lfloor>q\<rfloor> + 1" by linarith+
  then show ?thesis
    by (auto simp: round_half_even_def Let_def abs_le_iff)
qed

lemma round_half_even_of_int: "round_half_even (of_int k) = k"
  by (simp add: round_half_even_def)

lemma pow2_pos: "0 < pow2 e"
  by (simp add: pow2_def)

lemma pow2_diff: "pow2 (e - int k) = pow2 e / 2 ^ k"
proof (cases "0 \<le> e - int k")
  case True
  then have "nat e = nat (e - int k) + k" by simp
  then have "(2::rat) ^ nat e = 2 ^ nat (e - int k) * 2 ^ k"
    by (metis power_add)
  with True show ?thesis by (simp add: pow2_def)
next
  case False
  show ?thesis
  proof (cases "0 \<le> e")
    case True
    with False have "k = nat e + nat (- (e - int k))" by simp
    then have "(2::rat) ^ k = 2 ^ nat e * 2 ^ nat (- (e - int k))"
      by (metis power_add)
    with True False show ?thesis by (simp add: pow2_def)
  next
    case F: False
    then have "nat (- (e - int k)) = nat (- e) + k" by simp
    then have "(2::rat) ^ nat (- (e - int k)) = 2 ^ nat (- e) * 2 ^ k"
      by (metis power_add)
    with F False show ?thesis by (simp add: pow2_def)
  qed
qed

lemma pow2_ilog2_le:
  assumes "0 < a"
  shows "pow2 (ilog2 a) \<le> a"
proof (cases "1 \<le> a")
  case True
  then have m: "0 < \<lfloor>a\<rfloor>" by simp
  from bitlen_bounds [OF m] have b: "2 ^ nat (bitlen \<lfloor>a\<rfloor> - 1) \<le> \<lfloor>a\<rfloor>" by simp
  have "0 < bitlen \<lfloor>a\<rfloor>" using m by (simp add: bitlen_alt_def)
  then have "pow2 (ilog2 a) = 2 ^ nat (bitlen \<lfloor>a\<rfloor> - 1)"
    using True by (simp add: ilog2_def pow2_def)
  also have "\<dots> = of_int (2 ^ nat (bitlen \<lfloor>a\<rfloor> - 1))" by simp
  also have "\<dots> \<le> of_int \<lfloor>a\<rfloor>" using b by (simp only: of_int_le_iff)
  also have "\<dots> \<le> a" by simp
  finally show ?thesis .
next
  case False
  let ?k = "\<lceil>1 / a\<rceil> - 1"
  from False assms have "1 < 1 / a" by simp
  then have k: "0 < ?k" by linarith
  from bitlen_bounds [OF k] have "?k < 2 ^ nat (bitlen ?k)" by simp
  then have "\<lceil>1 / a\<rceil> \<le> 2 ^ nat (bitlen ?k)" by simp
  then have B: "of_int \<lceil>1 / a\<rceil> \<le> (2 :: rat) ^ nat (bitlen ?k)"
    using of_int_le_iff [where ?'a = rat, of "\<lceil>1 / a\<rceil>" "2 ^ nat (bitlen ?k)"] by simp
  have A: "1 / a \<le> of_int \<lceil>1 / a\<rceil>" by (rule le_of_int_ceiling)
  from A B have "1 / a \<le> 2 ^ nat (bitlen ?k)" by (rule order_trans)
  then have "1 / 2 ^ nat (bitlen ?k) \<le> a"
    using assms by (simp add: field_simps)
  moreover have "pow2 (ilog2 a) = 1 / 2 ^ nat (bitlen ?k)"
    using False bitlen_nonneg [of ?k] by (auto simp: ilog2_def pow2_def)
  ultimately show ?thesis by simp
qed

lemma binary64_error: "\<bar>binary64 q - q\<bar> \<le> \<bar>q\<bar> / 2 ^ 53"
proof (cases "q = 0")
  case True
  then show ?thesis by (simp add: binary64_def)
next
  case False
  define u where "u = pow2 (ilog2 \<bar>q\<bar> - 52)"
  have u: "0 < u" by (simp add: u_def pow2_pos)
  have b: "binary64 q = of_int (round_half_even (q / u)) * u"
    using False by (simp add: binary64_def u_def Let_def)
  have "binary64 q - q = (of_int (round_half_even (q / u)) - q / u) * u"
    using u by (simp add: b field_simps)
  then have "\<bar>binary64 q - q\<bar> = \<bar>of_int (round_half_even (q / u)) - q / u\<bar> * u"
    using u by (simp add: abs_mult)
  also have "\<dots> \<le> 1 / 2 * u"
    using round_half_even_error [of "q / u"] u by (intro mult_right_mono) auto
  also have "\<dots> = pow2 (ilog2 \<bar>q\<bar>) / 2 ^ 53"
    using pow2_diff [of "ilog2 \<bar>q\<bar>" 52] by (simp add: u_def)
  also have "\<dots> \<le> \<bar>q\<bar> / 2 ^ 53"
    using pow2_ilog2_le [of "\<bar>q\<bar>"] False by (simp add: divide_right_mono)
  finally show ?thesis .
qed

lemma binary64_of_int:
  assumes "0 < m" and "m < 2 ^ 53"
  shows "binary64 (of_int m) = of_int m"
proof -
  have b1: "0 < bitlen m" using assms(1) by (simp add: bitlen_alt_def)
  from bitlen_bounds [OF assms(1)] assms(2) have lt: "(2::int) ^ nat (bitlen m - 1) < 2 ^ 53"
    by linarith
  have "nat (bitlen m - 1) < 53"
    by (rule power_less_imp_less_exp [OF _ lt]) simp
  then have b2: "bitlen m \<le> 53" by linarith
  define k where "k = nat (53 - bitlen m)"
  have a: "\<bar>of_int m :: rat\<bar> = of_int m" using assms(1) by simp
  have e: "ilog2 (of_int m) - 52 = - int k"
    using assms(1) b1 b2 by (simp add: ilog2_def k_def)
  have u: "pow2 (ilog2 (of_int m) - 52) = 1 / 2 ^ k"
    unfolding e by (simp add: pow2_def)
  have "(of_int m :: rat) / (1 / 2 ^ k) = of_int (m * 2 ^ k)" by simp
  then have "round_half_even (of_int m / (1 / 2 ^ k)) = m * 2 ^ k"
    by (simp only: round_half_even_of_int)
  then show ?thesis
    using assms(1) by (simp add: binary64_def a u Let_def)
qed

section \<open>Claims about validate_data\<close>

text \<open>
  C2. For a table that passes the checks, \<open>validate_data\<close> takes column 0 as the student
  column and pairs the others two by two from index 1: with \<open>2 * n\<close> or \<open>2 * n + 1\<close>
  columns after the first it returns the \<open>n\<close> pairs (column \<open>1 + 2 * k\<close>, column
  \<open>2 + 2 * k\<close>) in column order, and in the odd case the last column is in no pair (said
  here for distinct labels).
\<close>

theorem column_pairing:
  assumes "\<not> df_empty df" and "3 \<le> length (columns df)"
    and "length (columns df) = 1 + 2 * n \<or> length (columns df) = 1 + (2 * n + 1)"
  shows "validate_data df =
           ([], Some \<lparr>format = ''paired'', student_col = columns df ! 0,
                       subject_percentage_pairs =
                         map (\<lambda>k. (columns df ! (1 + 2 * k), columns df ! (1 + 2 * k + 1),
                                    is_percentage_col (columns df ! (1 + 2 * k + 1))))
                           [0..<n]\<rparr>) \<and>
         (length (columns df) = 1 + (2 * n + 1) \<and> distinct (columns df) \<longrightarrow>
            (\<forall>k<n. columns df ! (1 + 2 * k) \<noteq> last (columns df) \<and>
                   columns df ! (1 + 2 * k + 1) \<noteq> last (columns df)))"
proof -
  from assms(3) have n: "(length (columns df) - 1) div 2 = n" by auto
  have "columns df ! (1 + 2 * k) \<noteq> last (columns df) \<and>
        columns df ! (1 + 2 * k + 1) \<noteq> last (columns df)"
    if len: "length (columns df) = 1 + (2 * n + 1)" and d: "distinct (columns df)" and k: "k < n"
    for k
  proof -
    have ne: "columns df \<noteq> []" using len by auto
    have l: "last (columns df) = columns df ! (2 * n + 1)"
      using len by (simp add: last_conv_nth [OF ne])
    show ?thesis
      unfolding l using d k len by (simp add: nth_eq_iff_index_eq)
  qed
  then show ?thesis
    using validate_data_ok [OF assms(1,2)] unfolding n by blast
qed

theorem column_pairing_witness:
  "\<not> df_empty marks \<and> 3 \<le> length (columns marks) \<and>
   length (columns marks) = 1 + (2 * 2 + 1) \<and>
   validate_data marks =
     ([], Some \<lparr>format = ''paired'', student_col = ''Student'',
                 subject_percentage_pairs =
                   [(''Chem'', ''Chem %'', True), (''Bio'', ''Bio mark'', False)]\<rparr>) \<and>
   last (columns marks) = ''Notes''"
proof -
  have h1: "\<not> df_empty marks" by (simp add: df_empty_def marks_def marks_columns_def)
  have h2: "3 \<le> length (columns marks)" by (simp add: marks_def marks_columns_def)
  have h3: "length (columns marks) = 1 + 2 * 2 \<or> length (columns marks) = 1 + (2 * 2 + 1)"
    by (simp add: marks_def marks_columns_def)
  from column_pairing [OF h1 h2 h3] show ?thesis
    using h1 h2
    by (simp add: marks_def marks_columns_def numeral_2_eq_2 is_percentage_col_values)
qed

text \<open>
  C6. A table with at least one row and at least three columns is accepted: the result
  holds no error, the format \<open>paired\<close> and a pair list that is not empty, whatever the
  flags of the pairs are, and it is never the answer of the last branch.
\<close>

theorem detection_succeeds:
  assumes "rows df \<noteq> []" and "3 \<le> length (columns df)"
  shows "\<exists>fmt. validate_data df = ([], Some fmt) \<and> format fmt = ''paired'' \<and>
           subject_percentage_pairs fmt \<noteq> [] \<and>
           validate_data df \<noteq> ([msg_undetermined], None)"
proof -
  have e: "\<not> df_empty df" using assms by (auto simp: df_empty_def)
  have "0 < (length (columns df) - 1) div 2" using assms(2) by simp
  then have "[0..<(length (columns df) - 1) div 2] \<noteq> []" by simp
  then show ?thesis
    unfolding validate_data_ok [OF e assms(2)] by simp
qed

theorem detection_succeeds_witness:
  "rows marks \<noteq> [] \<and> 3 \<le> length (columns marks) \<and>
   validate_data marks = ([], Some marks_format) \<and> format marks_format = ''paired'' \<and>
   subject_percentage_pairs marks_format \<noteq> []"
proof -
  have h1: "rows marks \<noteq> []" by (simp add: marks_def)
  have h2: "3 \<le> length (columns marks)" by (simp add: marks_def marks_columns_def)
  from detection_succeeds [OF h1 h2] show ?thesis
    using h1 h2 marks_validated by (simp add: marks_format_def)
qed

text \<open>
  C8. As stated (the no-data answer exactly for the tables without rows) the claim fails:
  a frame with rows and no column gets the no-data answer too.
\<close>

theorem empty_table_counterexample:
  "rows no_columns \<noteq> [] \<and> validate_data no_columns = ([msg_no_data], None)"
  by (simp add: no_columns_def validate_data_def df_empty_def)

text \<open>
  C8, amended. \<open>validate_data\<close> gives the no-data answer, and no mapping, exactly when
  the table has no row or no column.
\<close>

theorem empty_table:
  "(validate_data df = ([msg_no_data], None)) = (rows df = [] \<or> columns df = []) \<and>
   (msg_no_data \<in> set (fst (validate_data df))) = (rows df = [] \<or> columns df = [])"
  by (simp add: validate_data_def df_empty_def Let_def msg_no_data_def msg_columns_def
        msg_undetermined_def)

section \<open>Claims about process_data_and_create_charts\<close>

text \<open>
  C1. Every chart that is returned comes from a row with at least one score, and its
  summary holds: average = sum(scores) / len(scores), total_achieved = sum(scores),
  total_possible = 100 * len(scores), and total_percentage =
  total_achieved / total_possible * 100. With no score at all total_possible is 0 and
  total_percentage is 0.
\<close>

theorem summary_statistics:
  assumes "process_data_and_create_charts ops df fmt = Inr (charts, sms)"
    and "c \<in> set charts"
  shows "figure_scores c \<noteq> [] \<and>
         average (summary c) =
           float_div ops (float_sum ops (figure_scores c))
             (float_of_int ops (int (length (figure_scores c)))) \<and>
         total_achieved (summary c) = float_sum ops (figure_scores c) \<and>
         total_possible (summary c) = 100 * int (length (figure_scores c)) \<and>
         total_percentage (summary c) =
           float_mul ops
             (float_div ops (total_achieved (summary c))
                (float_of_int ops (total_possible (summary c))))
             (float_of_int ops 100) \<and>
         total_percentage (summarize ops [] []) = float_of_int ops 0"
proof -
  from charts_from_rows [OF assms] obtain row where "row_record ops fmt row = Inr (Some c)"
    by blast
  from row_record_Some [OF this] obtain subjects scores where
    ex: "extract_pairs ops row (subject_percentage_pairs fmt) [] [] = Inr (subjects, scores)"
    and ne: "subjects \<noteq> []"
    and c: "figure_subjects c = subjects" "figure_scores c = scores"
      "summary c = summarize ops subjects scores"
    by blast
  from extract_pairs_lengths [OF ex] ne have "scores \<noteq> []" by auto
  then show ?thesis by (simp add: c summarize_def Let_def)
qed

theorem summary_statistics_witness:
  "process_data_and_create_charts binary64_ops marks marks_format =
     Inr ([ann_chart, ann_again_chart], [(Name (Text ''Ann''), ann_again_summary)]) \<and>
   ann_chart \<in> set [ann_chart, ann_again_chart] \<and>
   figure_scores ann_chart = [50, 100] \<and>
   average (summary ann_chart) = 75 \<and>
   total_achieved (summary ann_chart) = 150 \<and>
   total_possible (summary ann_chart) = 100 * int (length (figure_scores ann_chart)) \<and>
   total_percentage (summary ann_chart) =
     float_mul binary64_ops
       (float_div binary64_ops (total_achieved (summary ann_chart))
          (float_of_int binary64_ops (total_possible (summary ann_chart))))
       (float_of_int binary64_ops 100)"
proof -
  have m: "ann_chart \<in> set [ann_chart, ann_again_chart]" by simp
  from summary_statistics [OF marks_result m] show ?thesis
    using marks_result by (simp add: ann_chart_def ann_summary_def)
qed

text \<open>
  C9. The charts returned are the records of the rows that are not skipped, in the order
  of the rows.
\<close>

theorem order_preserved:
  assumes "process_data_and_create_charts ops df fmt = Inr (charts, sms)"
    and "format fmt = ''paired''"
  shows "charts = concat (map (\<lambda>row. emitted (row_record ops fmt row)) (rows df))"
proof -
  from assms have "process_rows ops fmt (rows df) ([], []) = Inr (charts, sms)"
    by (simp add: process_data_and_create_charts_def)
  from process_rows_charts [OF this] show ?thesis by simp
qed

theorem order_preserved_witness:
  "process_data_and_create_charts binary64_ops marks marks_format =
     Inr ([ann_chart, ann_again_chart], [(Name (Text ''Ann''), ann_again_summary)]) \<and>
   format marks_format = ''paired'' \<and>
   [ann_chart, ann_again_chart] =
     concat (map (\<lambda>row. emitted (row_record binary64_ops marks_format row))
       [ann_row, bob_row, ann_again_row])"
proof -
  have h: "format marks_format = ''paired''" by (simp add: marks_format_def)
  from order_preserved [OF marks_result h] show ?thesis
    using marks_result h by (simp add: marks_def)
qed

text \<open>
  C3. In every row a pair adds an entry to \<open>subjects\<close> and \<open>scores\<close> exactly when its
  subject cell and its percentage cell are both not null. The subject added is the label
  of the subject column. The score added is the percentage cell as a float: the number
  itself when the cell holds a number, and \<^verbatim>\<open>float(s)\<close> when it holds the text \<open>s\<close>. The two
  lists have the same length, in the row and in every chart returned.
\<close>

theorem null_skip:
  "(extract_pairs ops row pairs [] [] = Inr (subjects, scores) \<longrightarrow>
      subjects = map fst (filter (both_present row) pairs) \<and>
      list_all2
        (\<lambda>x pair. \<exists>v. row (fst (snd pair)) = Some (Some v) \<and>
           (case v of Num y \<Rightarrow> x = y | Text s \<Rightarrow> float_of_str ops s = Some x))
        scores (filter (both_present row) pairs) \<and>
      length subjects = length scores) \<and>
   (process_data_and_create_charts ops df fmt = Inr (charts, sms) \<longrightarrow>
      (\<forall>c\<in>set charts. length (figure_subjects c) = length (figure_scores c)))"
proof (intro conjI impI ballI)
  assume a: "extract_pairs ops row pairs [] [] = Inr (subjects, scores)"
  from extract_pairs_acc [OF a]
  have s: "subjects = map fst (filter (both_present row) pairs)"
    and l: "list_all2
        (\<lambda>x pair. \<exists>v. row (fst (snd pair)) = Some (Some v) \<and> py_float ops v = Inr x)
        scores (filter (both_present row) pairs)"
    by auto
  from s show "subjects = map fst (filter (both_present row) pairs)" .
  from l show "list_all2
        (\<lambda>x pair. \<exists>v. row (fst (snd pair)) = Some (Some v) \<and>
           (case v of Num y \<Rightarrow> x = y | Text s \<Rightarrow> float_of_str ops s = Some x))
        scores (filter (both_present row) pairs)"
    by (rule list_all2_mono) (auto dest: py_float_Inr)
  from extract_pairs_lengths [OF a] show "length subjects = length scores" .
next
  fix c
  assume "process_data_and_create_charts ops df fmt = Inr (charts, sms)" and "c \<in> set charts"
  from charts_from_rows [OF this] obtain r where "row_record ops fmt r = Inr (Some c)"
    by blast
  from row_record_Some [OF this] show "length (figure_subjects c) = length (figure_scores c)"
    by (auto dest: extract_pairs_lengths)
qed

theorem null_skip_witness:
  "extract_pairs binary64_ops text_number_row (subject_percentage_pairs marks_format) [] [] =
     Inr ([''Chem''], [80]) \<and>
   filter (both_present text_number_row) (subject_percentage_pairs marks_format) =
     [(''Chem'', ''Chem %'', True)] \<and>
   text_number_row ''Chem %'' = Some (Some (Text ''80'')) \<and>
   float_of_str binary64_ops ''80'' = Some 80 \<and>
   text_number_row ''Bio'' = Some None \<and>
   text_number_row ''Bio mark'' = Some (Some (Num 75)) \<and>
   process_data_and_create_charts binary64_ops marks marks_format =
     Inr ([ann_chart, ann_again_chart], [(Name (Text ''Ann''), ann_again_summary)]) \<and>
   length (figure_subjects ann_chart) = length (figure_scores ann_chart)"
proof -
  have d: "float_of_str binary64_ops ''80'' = Some 80"
    by (simp add: run_defs float_of_digits_def binary64_values)
  have h: "extract_pairs binary64_ops text_number_row (subject_percentage_pairs marks_format) [] [] =
     Inr ([''Chem''], [80])"
    using d by (simp add: example_defs notna_def py_float_def)
  have f: "filter (both_present text_number_row) (subject_percentage_pairs marks_format) =
     [(''Chem'', ''Chem %'', True)]"
    by (simp add: example_defs both_present_def)
  from null_skip [of binary64_ops text_number_row "subject_percentage_pairs marks_format"
      "[''Chem'']" "[80]" marks marks_format "[ann_chart, ann_again_chart]"
      "[(Name (Text ''Ann''), ann_again_summary)]"]
  show ?thesis
    using d h f marks_result by (simp add: example_defs)
qed

text \<open>
  C4. A row in which every pair has a null cell yields no record, and the table with
  this row gives the same charts and the same summaries as the table without it.
\<close>

theorem empty_row_skipped:
  assumes "student_col fmt \<in> dom row"
    and "\<forall>pair\<in>set (subject_percentage_pairs fmt).
           fst pair \<in> dom row \<and> fst (snd pair) \<in> dom row \<and>
           (row (fst pair) = Some None \<or> row (fst (snd pair)) = Some None)"
  shows "row_record ops fmt row = Inr None \<and>
         process_data_and_create_charts ops (df\<lparr>rows := before @ row # after\<rparr>) fmt =
         process_data_and_create_charts ops (df\<lparr>rows := before @ after\<rparr>) fmt"
proof -
  have r: "row_record ops fmt row = Inr None"
    using assms(1) by (auto simp: row_record_def extract_pairs_all_null [OF assms(2)])
  show ?thesis
    by (simp add: r process_data_and_create_charts_def process_rows_skip [OF r])
qed

theorem empty_row_skipped_witness:
  "student_col marks_format \<in> dom bob_row \<and>
   bob_row ''Chem'' = Some None \<and> bob_row ''Bio mark'' = Some None \<and>
   row_record binary64_ops marks_format bob_row = Inr None \<and>
   process_data_and_create_charts binary64_ops
     (marks\<lparr>rows := [ann_row] @ bob_row # [ann_again_row]\<rparr>) marks_format =
   process_data_and_create_charts binary64_ops
     (marks\<lparr>rows := [ann_row] @ [ann_again_row]\<rparr>) marks_format"
proof -
  have h1: "student_col marks_format \<in> dom bob_row" by (simp add: example_defs)
  have h2: "\<forall>pair\<in>set (subject_percentage_pairs marks_format).
           fst pair \<in> dom bob_row \<and> fst (snd pair) \<in> dom bob_row \<and>
           (bob_row (fst pair) = Some None \<or> bob_row (fst (snd pair)) = Some None)"
    by (simp add: example_defs)
  from empty_row_skipped [OF h1 h2, where ops = binary64_ops and df = marks
      and before = "[ann_row]" and after = "[ann_again_row]"]
  show ?thesis using h1 by (simp add: example_defs)
qed

text \<open>
  C5. As stated (every row has its own record in the output, names that repeat are never
  merged) the claim fails for \<open>student_summaries\<close>: two rows named Ann give two charts
  and one summary entry, the second row's, and the first row's statistics are not in it.
\<close>

theorem duplicate_names_counterexample:
  "row_record binary64_ops marks_format ann_row = Inr (Some ann_chart) \<and>
   row_record binary64_ops marks_format ann_again_row = Inr (Some ann_again_chart) \<and>
   student ann_chart = student ann_again_chart \<and>
   process_data_and_create_charts binary64_ops marks marks_format =
     Inr ([ann_chart, ann_again_chart], [(Name (Text ''Ann''), ann_again_summary)]) \<and>
   summary ann_chart \<noteq> ann_again_summary"
  using marks_rows marks_result
  by (simp add: ann_chart_def ann_again_chart_def ann_summary_def ann_again_summary_def)

text \<open>
  C5, amended. Every row that is not skipped has its own entry in \<open>charts\<close>, with the
  statistics of its own row, also when names repeat. Looking up a name that is not null
  in \<open>student_summaries\<close> gives the summary of the last chart with this name: the rows
  before it with the same name are overwritten there.
\<close>

theorem duplicate_names:
  assumes "process_data_and_create_charts ops df fmt = Inr (charts, sms)"
    and "format fmt = ''paired''"
  shows "charts = concat (map (\<lambda>row. emitted (row_record ops fmt row)) (rows df)) \<and>
         length charts = length (filter (\<lambda>row. emitted (row_record ops fmt row) \<noteq> []) (rows df)) \<and>
         (\<forall>v. map_of sms (Name v) =
                map_of (rev (map (\<lambda>c. (student c, summary c)) charts)) (Some v))"
proof -
  from assms have p: "process_rows ops fmt (rows df) ([], []) = Inr (charts, sms)"
    by (simp add: process_data_and_create_charts_def)
  from process_rows_charts [OF p]
  have c: "charts = concat (map (\<lambda>row. emitted (row_record ops fmt row)) (rows df))" by simp
  have "length (concat (map (\<lambda>row. emitted (row_record ops fmt row)) rs)) =
        length (filter (\<lambda>row. emitted (row_record ops fmt row) \<noteq> []) rs)" for rs
    by (induction rs) (auto simp: emitted_def split: sum.splits option.splits)
  then have l: "length charts =
      length (filter (\<lambda>row. emitted (row_record ops fmt row) \<noteq> []) (rows df))"
    unfolding c .
  have "map_of sms (Name v) = map_of (rev (map (\<lambda>c. (student c, summary c)) charts)) (Some v)"
    for v
    using process_rows_sums [OF p, of v] c by (simp split: option.splits)
  with c l show ?thesis by simp
qed

theorem duplicate_names_witness:
  "process_data_and_create_charts binary64_ops marks marks_format =
     Inr ([ann_chart, ann_again_chart], [(Name (Text ''Ann''), ann_again_summary)]) \<and>
   format marks_format = ''paired'' \<and>
   length [ann_chart, ann_again_chart] =
     length (filter (\<lambda>row. emitted (row_record binary64_ops marks_format row) \<noteq> [])
       (rows marks)) \<and>
   map_of [(Name (Text ''Ann''), ann_again_summary)] (Name (Text ''Ann'')) =
     map_of (rev (map (\<lambda>c. (student c, summary c)) [ann_chart, ann_again_chart]))
       (Some (Text ''Ann''))"
proof -
  have h: "format marks_format = ''paired''" by (simp add: marks_format_def)
  from duplicate_names [OF marks_result h] show ?thesis
    using marks_result h
    by (simp add: marks_def marks_rows emitted_def ann_chart_def ann_again_chart_def)
qed

text \<open>
  C7. As stated (a percentage cell that is not null and is not a number aborts the run)
  the claim fails: when the subject cell of the pair is null the pair is skipped, the
  percentage cell is never converted, and the run succeeds.
\<close>

theorem coercion_failure_counterexample:
  "text_skipped_row ''Chem %'' = Some (Some (Text ''abc'')) \<and>
   float_of_str binary64_ops ''abc'' = None \<and>
   process_data_and_create_charts binary64_ops
     \<lparr>columns = marks_columns, rows = [text_skipped_row]\<rparr> marks_format =
     Inr ([cy_chart], [(Name (Text ''Cy''), cy_summary)])"
  by (simp add: example_defs run_defs binary64_values float_of_digits_def)

text \<open>
  C7, amended. When some row has a pair whose subject cell is not null and whose
  percentage cell is a text that \<^verbatim>\<open>float\<close> rejects, the run aborts: the function raises
  and returns neither charts nor summaries. The exception is the first one met in the
  order of the rows and of the pairs; when the rows before and the pairs before in the
  row pass without one, it is the ValueError of \<^verbatim>\<open>float\<close> with the text of that cell.
\<close>

theorem coercion_failure_aborts:
  assumes "format fmt = ''paired''"
    and "rows df = before @ row # after"
    and "subject_percentage_pairs fmt = ps @ pair # qs"
    and "row (fst pair) = Some (Some a)"
    and "row (fst (snd pair)) = Some (Some (Text t))"
    and "float_of_str ops t = None"
  shows "(\<exists>e. process_data_and_create_charts ops df fmt = Inl e) \<and>
         (process_rows ops fmt before ([], []) = Inr st \<and>
          row (student_col fmt) = Some student_name \<and>
          extract_pairs ops row ps [] [] = Inr (subjects, scores) \<longrightarrow>
            process_data_and_create_charts ops df fmt = Inl (ValueError t))"
proof (intro conjI impI)
  have "process_data_and_create_charts ops df fmt \<noteq> Inr (charts, sms)" for charts sms
  proof
    assume "process_data_and_create_charts ops df fmt = Inr (charts, sms)"
    with assms(1) have "process_rows ops fmt (rows df) ([], []) = Inr (charts, sms)"
      by (simp add: process_data_and_create_charts_def)
    from process_rows_charts [OF this] assms(2) obtain oc where
      "row_record ops fmt row = Inr oc" by auto
    then obtain subjects' scores' where
      "extract_pairs ops row (subject_percentage_pairs fmt) [] [] = Inr (subjects', scores')"
      by (auto simp: row_record_def split: option.splits sum.splits prod.splits)
    moreover have "pair \<in> set (subject_percentage_pairs fmt)" using assms(3) by simp
    ultimately show False
      using extract_pairs_coerced [OF _ _ assms(4,5)] assms(6) by (fastforce simp: py_float_def)
  qed
  then show "\<exists>e. process_data_and_create_charts ops df fmt = Inl e"
    by (cases "process_data_and_create_charts ops df fmt") auto
next
  assume first: "process_rows ops fmt before ([], []) = Inr st \<and>
          row (student_col fmt) = Some student_name \<and>
          extract_pairs ops row ps [] [] = Inr (subjects, scores)"
  have "extract_pairs ops row (subject_percentage_pairs fmt) [] [] = Inl (ValueError t)"
    using first extract_pairs_rejected [OF assms(4,5,6)]
    by (simp add: assms(3) extract_pairs_append)
  then have "process_row ops fmt row st = Inl (ValueError t)"
    using first by (simp add: process_row_def)
  then have "process_rows ops fmt (rows df) ([], []) = Inl (ValueError t)"
    using first by (simp add: assms(2) process_rows_append)
  then show "process_data_and_create_charts ops df fmt = Inl (ValueError t)"
    using assms(1) by (simp add: process_data_and_create_charts_def)
qed

theorem coercion_failure_aborts_witness:
  "format marks_format = ''paired'' \<and>
   rows \<lparr>columns = marks_columns, rows = [ann_row, text_read_row]\<rparr> =
     [ann_row] @ text_read_row # [] \<and>
   subject_percentage_pairs marks_format =
     [] @ (''Chem'', ''Chem %'', True) # [(''Bio'', ''Bio mark'', False)] \<and>
   text_read_row ''Chem'' = Some (Some (Num 8)) \<and>
   text_read_row ''Chem %'' = Some (Some (Text ''abc'')) \<and>
   float_of_str binary64_ops ''abc'' = None \<and>
   process_rows binary64_ops marks_format [ann_row] ([], []) =
     Inr ([ann_chart], [(Name (Text ''Ann''), ann_summary)]) \<and>
   text_read_row (student_col marks_format) = Some (Some (Text ''Di'')) \<and>
   process_data_and_create_charts binary64_ops
     \<lparr>columns = marks_columns, rows = [ann_row, text_read_row]\<rparr> marks_format =
     Inl (ValueError ''abc'')"
proof -
  have h1: "format marks_format = ''paired''" by (simp add: marks_format_def)
  have h2: "rows \<lparr>columns = marks_columns, rows = [ann_row, text_read_row]\<rparr> =
     [ann_row] @ text_read_row # []"
    by simp
  have h3: "subject_percentage_pairs marks_format =
     [] @ (''Chem'', ''Chem %'', True) # [(''Bio'', ''Bio mark'', False)]"
    by (simp add: marks_format_def)
  have h4: "text_read_row (fst (''Chem'', ''Chem %'', True)) = Some (Some (Num 8))"
    by (simp add: example_defs)
  have h5: "text_read_row (fst (snd (''Chem'', ''Chem %'', True))) = Some (Some (Text ''abc''))"
    by (simp add: example_defs)
  have h6: "float_of_str binary64_ops ''abc'' = None"
    by (simp add: run_defs float_of_digits_def)
  have b: "process_rows binary64_ops marks_format [ann_row] ([], []) =
     Inr ([ann_chart], [(Name (Text ''Ann''), ann_summary)])"
    by (simp add: example_defs run_defs binary64_values)
  have n: "text_read_row (student_col marks_format) = Some (Some (Text ''Di''))"
    by (simp add: example_defs)
  have e: "extract_pairs binary64_ops text_read_row [] [] [] = Inr ([], [])" by simp
  from coercion_failure_aborts [OF h1 h2 h3 h4 h5 h6,
      of "([ann_chart], [(Name (Text ''Ann''), ann_summary)])" "Some (Text ''Di'')" "[]" "[]"]
  show ?thesis
    using h1 h2 h3 h4 h5 h6 b n e by simp
qed

text \<open>
  C10. As stated (total_percentage equals average for every record) the claim fails in
  binary64: for the single score 7 the average is 7 and total_percentage is
  \<open>7 / 100 * 100\<close>, which rounds to \<open>7 + 2 ^ -50\<close>.
\<close>

theorem percentage_equals_average_counterexample:
  "process_data_and_create_charts binary64_ops
     \<lparr>columns = marks_columns, rows = [seven_row]\<rparr> marks_format =
     Inr ([seven_chart], [(Name (Text ''Ed''), seven_summary)]) \<and>
   average (summary seven_chart) = 7 \<and>
   total_percentage (summary seven_chart) = 7 + 1 / 2 ^ 50 \<and>
   total_percentage (summary seven_chart) \<noteq> average (summary seven_chart)"
  by (simp add: example_defs run_defs binary64_values)

text \<open>
  C10, amended. In binary64 total_percentage and average agree up to rounding, and need
  not be equal: for every chart with fewer than \<open>2 ^ 46\<close> scores whose total_achieved is
  0 or of a magnitude between \<open>2 ^ -900\<close> and \<open>2 ^ 900\<close> (so that nothing overflows or
  underflows), they differ by at most \<open>2 ^ -51\<close> times the magnitude of the average.
\<close>

theorem percentage_near_average:
  fixes ops :: "(rat, 'z) platform_scheme"
  assumes "process_data_and_create_charts ops df fmt = Inr (charts, sms)"
    and "c \<in> set charts"
    and "float_of_int ops = (\<lambda>i. binary64 (of_int i))"
    and "float_div ops = (\<lambda>a b. binary64 (a / b))"
    and "float_mul ops = (\<lambda>a b. binary64 (a * b))"
    and "length (figure_scores c) < 2 ^ 46"
    and "total_achieved (summary c) = 0 \<or>
         (1 / 2 ^ 900 \<le> \<bar>total_achieved (summary c)\<bar> \<and> \<bar>total_achieved (summary c)\<bar> \<le> 2 ^ 900)"
  shows "\<bar>total_percentage (summary c) - average (summary c)\<bar> \<le> \<bar>average (summary c)\<bar> / 2 ^ 51"
proof -
  from chart_summary [OF assms(1,2)] have ne: "figure_scores c \<noteq> []"
    and s: "summary c = summarize ops (figure_subjects c) (figure_scores c)"
    by auto
  define n where "n = int (length (figure_scores c))"
  define S where "S = float_sum ops (figure_scores c)"
  define x where "x = S / of_int n"
  define q where "q = binary64 (x / 100)"
  have n0: "0 < n" using ne by (simp add: n_def)
  have "length (figure_scores c) * 100 < 2 ^ 46 * 100" using assms(6) by simp
  also have "\<dots> < (2 :: nat) ^ 53" by simp
  finally have "int (length (figure_scores c) * 100) < int (2 ^ 53)"
    by (simp only: of_nat_less_iff)
  then have n1: "100 * n < 2 ^ 53" by (simp add: n_def)
  have i1: "binary64 (of_int n) = of_int n"
    using n0 n1 by (intro binary64_of_int) auto
  have i2: "binary64 (of_int (100 * n)) = of_int (100 * n)"
    using n0 n1 by (intro binary64_of_int) auto
  have i3: "binary64 (of_int 100) = of_int 100"
    by (intro binary64_of_int) auto
  have avg: "average (summary c) = binary64 x"
    using ne i1 by (simp add: s summarize_def Let_def assms(3,4) n_def S_def x_def)
  have eq: "S / (100 * of_int n) = x / 100" by (simp add: x_def)
  have tp: "total_percentage (summary c) = binary64 (q * 100)"
    using ne n0 i2 i3
    by (simp add: s summarize_def Let_def assms(3,4,5) q_def eq flip: n_def S_def)
  have e1: "\<bar>binary64 x - x\<bar> \<le> \<bar>x\<bar> / 2 ^ 53" by (rule binary64_error)
  have "\<bar>q - x / 100\<bar> \<le> \<bar>x / 100\<bar> / 2 ^ 53" unfolding q_def by (rule binary64_error)
  then have "\<bar>q - x / 100\<bar> * 100 \<le> \<bar>x\<bar> / 2 ^ 53" by simp
  moreover have "\<bar>q * 100 - x\<bar> = \<bar>q - x / 100\<bar> * 100"
  proof -
    have "q * 100 - x = (q - x / 100) * 100" by simp
    then have "\<bar>q * 100 - x\<bar> = \<bar>q - x / 100\<bar> * \<bar>100\<bar>" by (simp only: abs_mult)
    then show ?thesis by simp
  qed
  ultimately have e2: "\<bar>q * 100 - x\<bar> \<le> \<bar>x\<bar> / 2 ^ 53" by simp
  then have qa: "\<bar>q * 100\<bar> \<le> \<bar>x\<bar> + \<bar>x\<bar> / 2 ^ 53" by linarith
  have "\<bar>binary64 (q * 100) - q * 100\<bar> \<le> \<bar>q * 100\<bar> / 2 ^ 53" by (rule binary64_error)
  also have "\<dots> \<le> (\<bar>x\<bar> + \<bar>x\<bar> / 2 ^ 53) / 2 ^ 53"
    using qa by (rule divide_right_mono) simp
  finally have e3: "\<bar>binary64 (q * 100) - q * 100\<bar> \<le> (\<bar>x\<bar> + \<bar>x\<bar> / 2 ^ 53) / 2 ^ 53" .
  have d: "\<bar>binary64 (q * 100) - binary64 x\<bar> \<le>
             \<bar>x\<bar> / 2 ^ 53 + \<bar>x\<bar> / 2 ^ 53 + (\<bar>x\<bar> + \<bar>x\<bar> / 2 ^ 53) / 2 ^ 53"
    using e1 e2 e3 by linarith
  have xa: "\<bar>x\<bar> \<le> \<bar>binary64 x\<bar> + \<bar>x\<bar> / 2 ^ 53" using e1 by linarith
  have "\<bar>binary64 (q * 100) - binary64 x\<bar> \<le> \<bar>binary64 x\<bar> / 2 ^ 51"
    using d xa by simp
  then show ?thesis by (simp add: avg tp)
qed

theorem percentage_near_average_witness:
  "process_data_and_create_charts binary64_ops
     \<lparr>columns = marks_columns, rows = [seven_row]\<rparr> marks_format =
     Inr ([seven_chart], [(Name (Text ''Ed''), seven_summary)]) \<and>
   seven_chart \<in> set [seven_chart] \<and>
   float_of_int binary64_ops = (\<lambda>i. binary64 (of_int i)) \<and>
   float_div binary64_ops = (\<lambda>a b. binary64 (a / b)) \<and>
   float_mul binary64_ops = (\<lambda>a b. binary64 (a * b)) \<and>
   length (figure_scores seven_chart) < 2 ^ 46 \<and>
   1 / 2 ^ 900 \<le> \<bar>total_achieved (summary seven_chart)\<bar> \<and>
   \<bar>total_achieved (summary seven_chart)\<bar> \<le> 2 ^ 900 \<and>
   total_percentage (summary seven_chart) - average (summary seven_chart) = 1 / 2 ^ 50 \<and>
   \<bar>total_percentage (summary seven_chart) - average (summary seven_chart)\<bar>
     \<le> \<bar>average (summary seven_chart)\<bar> / 2 ^ 51"
proof -
  have h1: "process_data_and_create_charts binary64_ops
     \<lparr>columns = marks_columns, rows = [seven_row]\<rparr> marks_format =
     Inr ([seven_chart], [(Name (Text ''Ed''), seven_summary)])"
    by (simp add: example_defs run_defs binary64_values)
  have h2: "seven_chart \<in> set [seven_chart]" by simp
  have h3: "float_of_int binary64_ops = (\<lambda>i. binary64 (of_int i))"
    by (simp add: binary64_ops_def rounded_ops_def)
  have h4: "float_div binary64_ops = (\<lambda>a b. binary64 (a / b))"
    by (simp add: binary64_ops_def rounded_ops_def)
  have h5: "float_mul binary64_ops = (\<lambda>a b. binary64 (a * b))"
    by (simp add: binary64_ops_def rounded_ops_def)
  have h6: "length (figure_scores seven_chart) < 2 ^ 46" by (simp add: seven_chart_def)
  have h7: "total_achieved (summary seven_chart) = 0 \<or>
         (1 / 2 ^ 900 \<le> \<bar>total_achieved (summary seven_chart)\<bar> \<and>
          \<bar>total_achieved (summary seven_chart)\<bar> \<le> 2 ^ 900)"
    by (simp add: seven_chart_def seven_summary_def)
  from percentage_near_average [OF h1 h2 h3 h4 h5 h6 h7] show ?thesis
    using h1 h2 h3 h4 h5 h6 h7 by (simp add: seven_chart_def seven_summary_def)
qed

end
